theory Spec2Isabelle
  imports Main
begin

section \<open>JavaScript values\<close>

text \<open>
  A string of the program is the list of its code units, for strings whose code units
  are below 256 (ASCII and Latin-1); \<open>length\<close>, \<open>take\<close> and list equality are then
  the program's \<open>length\<close>, \<open>substring(0, n)\<close> and \<open>===\<close> on strings.

  A dynamically typed value is a \<open>jsval\<close>. Numbers are the integers (page numbers,
  HTTP status codes, ids, counts). An object is the list of its own enumerable entries
  in \<open>Object.keys\<close> order; property lookup takes the first entry of a key.
\<close>

datatype jsval =
    JUndefined
  | JNull
  | JBool bool
  | JNum int
  | JStr string
  | JArr "jsval list"
  | JObj "(string \<times> jsval) list"

text \<open>Truthiness, as \<open>if (v)\<close>, \<open>v || w\<close> and \<open>v ? a : b\<close> test it.\<close>

fun truthy :: "jsval \<Rightarrow> bool" where
  "truthy JUndefined = False"
| "truthy JNull = False"
| "truthy (JBool b) = b"
| "truthy (JNum n) = (n \<noteq> 0)"
| "truthy (JStr s) = (s \<noteq> [])"
| "truthy (JArr _) = True"
| "truthy (JObj _) = True"

definition js_or :: "jsval \<Rightarrow> jsval \<Rightarrow> jsval" where
  "js_or a b = (if truthy a then a else b)"

text \<open>Decimal rendering of a number, as a template literal or \<open>String(n)\<close> gives it.\<close>

fun digits :: "nat \<Rightarrow> string" where
  "digits n =
     (if n < 10 then [''0123456789'' ! n]
      else digits (n div 10) @ [''0123456789'' ! (n mod 10)])"

declare digits.simps [simp del]

definition number_to_string :: "int \<Rightarrow> string" where
  "number_to_string i = (if i < 0 then CHR ''-'' # digits (nat (- i)) else digits (nat i))"

fun join :: "string \<Rightarrow> string list \<Rightarrow> string" where
  "join sep [] = []"
| "join sep [x] = x"
| "join sep (x # y # xs) = x @ sep @ join sep (y # xs)"

text \<open>
  \<open>ToString\<close>: what \<open>String(v)\<close>, a template literal and the string parameters of the
  platform functions (\<open>append\<close>, \<open>setItem\<close>, \<open>encodeURIComponent\<close>) make of a value.
  An array is its elements joined by commas, \<open>null\<close> and \<open>undefined\<close> elements empty.
\<close>

fun to_string :: "jsval \<Rightarrow> string" where
  "to_string JUndefined = ''undefined''"
| "to_string JNull = ''null''"
| "to_string (JBool b) = (if b then ''true'' else ''false'')"
| "to_string (JNum n) = number_to_string n"
| "to_string (JStr s) = s"
| "to_string (JArr xs) =
     join '','' (map (\<lambda>x. if x = JUndefined \<or> x = JNull then [] else to_string x) xs)"
| "to_string (JObj kvs) = ''[object Object]''"

text \<open>
  Property access \<open>v.k\<close> for the keys the program reads (\<open>detail\<close>, \<open>message\<close>,
  \<open>items\<close>, \<open>total\<close>, \<open>id\<close>, \<open>token\<close>, \<open>account_role\<close>, \<open>role\<close>, \<open>field\<close>, ...),
  none of which is a built-in property of a string, number, boolean or array.
\<close>

fun prop_of :: "jsval \<Rightarrow> string \<Rightarrow> jsval" where
  "prop_of (JObj kvs) k = (case map_of kvs k of Some v \<Rightarrow> v | None \<Rightarrow> JUndefined)"
| "prop_of _ k = JUndefined"

section \<open>Errors and promises\<close>

text \<open>
  The values the program throws or rejects with: the structured error object that
  \<open>fetchJson\<close> builds, and an exception object (\<open>new Error(msg)\<close>, a \<open>TypeError\<close>
  of the engine) with its \<open>name\<close> and \<open>message\<close>.
\<close>

record api_error =
  err_status :: int
  err_statusText :: "string option"
  err_message :: jsval
  err_body :: jsval
  err_url :: string
  err_validationErrors :: "jsval option"

datatype js_error =
    Structured api_error
  | ErrorObj string string

text \<open>\<open>error.status\<close>, \<open>error.name\<close> and \<open>error.message\<close>.\<close>

fun error_status :: "js_error \<Rightarrow> jsval" where
  "error_status (Structured e) = JNum (err_status e)"
| "error_status (ErrorObj name msg) = JUndefined"

fun error_name :: "js_error \<Rightarrow> jsval" where
  "error_name (Structured e) = JUndefined"
| "error_name (ErrorObj name msg) = JStr name"

fun error_message :: "js_error \<Rightarrow> jsval" where
  "error_message (Structured e) = err_message e"
| "error_message (ErrorObj name msg) = JStr msg"

text \<open>
  Reading a property of \<open>null\<close> or \<open>undefined\<close> throws a \<open>TypeError\<close>; the message is
  the engine's (V8's here).
\<close>

definition null_property_error :: "jsval \<Rightarrow> string \<Rightarrow> js_error" where
  "null_property_error v k =
     ErrorObj ''TypeError''
       (''Cannot read properties of '' @ to_string v @ '' (reading '' @ [CHR 0x27] @ k @ [CHR 0x27] @ '')'')"

definition get_prop :: "jsval \<Rightarrow> string \<Rightarrow> js_error + jsval" where
  "get_prop v k =
     (if v = JNull \<or> v = JUndefined then Inl (null_property_error v k) else Inr (prop_of v k))"

section \<open>The session in localStorage\<close>

type_synonym storage = "string \<rightharpoonup> string"

text \<open>\<open>getStoredAuth\<close>: the pair \<open>{token, accountRole}\<close>; \<open>getItem\<close> gives \<open>null\<close> (\<open>None\<close>) for an absent key.\<close>

definition getStoredAuth :: "storage \<Rightarrow> string option \<times> string option" where
  "getStoredAuth ls = (ls ''token'', ls ''account_role'')"

text \<open>\<open>setItem\<close> stores the string of its value.\<close>

definition setStoredAuth :: "jsval \<Rightarrow> jsval \<Rightarrow> storage \<Rightarrow> storage" where
  "setStoredAuth token accountRole ls =
     (ls(''token'' \<mapsto> to_string token))(''account_role'' \<mapsto> to_string accountRole)"

definition clearStoredAuth :: "storage \<Rightarrow> storage" where
  "clearStoredAuth ls = (ls(''token'' := None))(''account_role'' := None)"

section \<open>authProvider: checkError and getPermissions\<close>

text \<open>
  A promise of the auth provider settles as \<open>Inr v\<close> (resolved) or \<open>Inl r\<close> (rejected),
  where \<open>r = None\<close> is \<open>Promise.reject()\<close> without a reason.
\<close>

definition checkError :: "js_error \<Rightarrow> storage \<Rightarrow> (js_error option + unit) \<times> storage" where
  "checkError error ls =
     (let status = error_status error
      in if status = JNum 401 \<or> status = JNum 403
         then (Inl None, clearStoredAuth ls)
         else (Inr (), ls))"

record permissions =
  canCreate :: bool
  canEdit :: bool
  canDelete :: bool
  canExport :: bool
  canImport :: bool

definition getPermissions :: "storage \<Rightarrow> js_error option + permissions" where
  "getPermissions ls =
     (let accountRole = snd (getStoredAuth ls)
      in if accountRole = Some ''admin'' then
           Inr \<lparr>canCreate = True, canEdit = True, canDelete = True,
                canExport = True, canImport = True\<rparr>
         else if accountRole = Some ''corporate_admin'' then
           Inr \<lparr>canCreate = False, canEdit = True, canDelete = False,
                canExport = False, canImport = False\<rparr>
         else
           Inr \<lparr>canCreate = False, canEdit = False, canDelete = False,
                canExport = False, canImport = False\<rparr>)"

section \<open>String functions of the platform\<close>

fun starts_with :: "string \<Rightarrow> string \<Rightarrow> bool" where
  "starts_with s [] = True"
| "starts_with [] (d # ds) = False"
| "starts_with (c # cs) (d # ds) = (c = d \<and> starts_with cs ds)"

text \<open>\<open>s.includes(t)\<close>: \<open>t\<close> occurs in \<open>s\<close> as a contiguous run.\<close>

fun str_includes :: "string \<Rightarrow> string \<Rightarrow> bool" where
  "str_includes [] t = (t = [])"
| "str_includes (c # cs) t = (starts_with (c # cs) t \<or> str_includes cs t)"

text \<open>
  \<open>toLowerCase\<close> on code units below 256: the letters A to Z and the Latin-1 capitals
  (all of 0xC0 to 0xDE but the multiplication sign 0xD7) move up by 0x20.
\<close>

definition upper_chars :: string where
  "upper_chars = ''ABCDEFGHIJKLMNOPQRSTUVWXYZ'' @
     [CHR 0xC0, CHR 0xC1, CHR 0xC2, CHR 0xC3, CHR 0xC4, CHR 0xC5, CHR 0xC6, CHR 0xC7,
      CHR 0xC8, CHR 0xC9, CHR 0xCA, CHR 0xCB, CHR 0xCC, CHR 0xCD, CHR 0xCE, CHR 0xCF,
      CHR 0xD0, CHR 0xD1, CHR 0xD2, CHR 0xD3, CHR 0xD4, CHR 0xD5, CHR 0xD6, CHR 0xD8,
      CHR 0xD9, CHR 0xDA, CHR 0xDB, CHR 0xDC, CHR 0xDD, CHR 0xDE]"

definition lower_chars :: string where
  "lower_chars = ''abcdefghijklmnopqrstuvwxyz'' @
     [CHR 0xE0, CHR 0xE1, CHR 0xE2, CHR 0xE3, CHR 0xE4, CHR 0xE5, CHR 0xE6, CHR 0xE7,
      CHR 0xE8, CHR 0xE9, CHR 0xEA, CHR 0xEB, CHR 0xEC, CHR 0xED, CHR 0xEE, CHR 0xEF,
      CHR 0xF0, CHR 0xF1, CHR 0xF2, CHR 0xF3, CHR 0xF4, CHR 0xF5, CHR 0xF6, CHR 0xF8,
      CHR 0xF9, CHR 0xFA, CHR 0xFB, CHR 0xFC, CHR 0xFD, CHR 0xFE]"

definition lower_char :: "char \<Rightarrow> char" where
  "lower_char c = (case map_of (zip upper_chars lower_chars) c of Some l \<Rightarrow> l | None \<Rightarrow> c)"

definition toLowerCase :: "string \<Rightarrow> string" where
  "toLowerCase s = map lower_char s"

text \<open>
  \<open>trim\<close> removes white space and line terminators at both ends; below 256 these are
  tab, line feed, vertical tab, form feed, carriage return, space and no-break space.
\<close>

definition is_space :: "char \<Rightarrow> bool" where
  "is_space c = (c \<in> set [CHR 0x09, CHR 0x0A, CHR 0x0B, CHR 0x0C, CHR 0x0D, CHR 0x20, CHR 0xA0])"

definition trim :: "string \<Rightarrow> string" where
  "trim s = rev (dropWhile is_space (rev (dropWhile is_space s)))"

text \<open>
  Percent-encoding. A code unit below 128 is one UTF-8 byte, one from 128 to 255 is two;
  each encoded byte is \<open>%\<close> and two upper-case hexadecimal digits.
\<close>

definition utf8_bytes :: "char \<Rightarrow> nat list" where
  "utf8_bytes c =
     (let n = (of_char c :: nat) in if n < 128 then [n] else [192 + n div 64, 128 + n mod 64])"

definition percent_byte :: "nat \<Rightarrow> string" where
  "percent_byte n = [CHR ''%'', ''0123456789ABCDEF'' ! (n div 16), ''0123456789ABCDEF'' ! (n mod 16)]"

definition alphanumeric :: string where
  "alphanumeric = ''ABCDEFGHIJKLMNOPQRSTUVWXYZabcdefghijklmnopqrstuvwxyz0123456789''"

text \<open>\<open>encodeURIComponent\<close> leaves the letters, the digits and \<open>- _ . ! ~ * ' ( )\<close> alone.\<close>

definition uri_unreserved :: "char \<Rightarrow> bool" where
  "uri_unreserved c = (c \<in> set (alphanumeric @ ''-_.!~*()'' @ [CHR 0x27]))"

definition encodeURIComponent :: "string \<Rightarrow> string" where
  "encodeURIComponent s =
     concat (map (\<lambda>c. if uri_unreserved c then [c] else concat (map percent_byte (utf8_bytes c))) s)"

text \<open>
  \<open>URLSearchParams\<close>: the list of (name, value) pairs in the order of the \<open>append\<close>
  calls. \<open>toString\<close> is the application/x-www-form-urlencoded serializer: in names and
  values alike a space becomes \<open>+\<close>, the letters, the digits and \<open>* - . _\<close> stay, and
  every other byte is percent-encoded; pairs are joined by \<open>&\<close>.
\<close>

type_synonym url_search_params = "(string \<times> string) list"

definition append_param :: "url_search_params \<Rightarrow> string \<Rightarrow> jsval \<Rightarrow> url_search_params" where
  "append_param q name v = q @ [(name, to_string v)]"

definition form_urlencode :: "string \<Rightarrow> string" where
  "form_urlencode s =
     concat (map (\<lambda>c. if c = CHR '' '' then ''+''
                      else if c \<in> set (alphanumeric @ ''*-._'') then [c]
                      else concat (map percent_byte (utf8_bytes c))) s)"

definition URLSearchParams_toString :: "url_search_params \<Rightarrow> string" where
  "URLSearchParams_toString q =
     join ''&'' (map (\<lambda>(name, v). form_urlencode name @ ''='' @ form_urlencode v) q)"

section \<open>dataProvider: buildQueryParams\<close>

text \<open>
  The parameters of a list call. An absent member is \<open>None\<close>. The sort field and order
  are strings (react-admin passes \<open>'ASC'\<close> or \<open>'DESC'\<close>); page and perPage are any value;
  the filter is an object, as the list of its entries in \<open>Object.keys\<close> order.
\<close>

record pagination_params =
  page :: jsval
  perPage :: jsval

record sort_params =
  field :: "string option"
  order :: "string option"

record list_params =
  pagination :: "pagination_params option"
  sort_p :: "sort_params option"
  filter_p :: "(string \<times> jsval) list option"

text \<open>The \<open>forEach\<close> over the filter's keys.\<close>

fun append_filters :: "(string \<times> jsval) list \<Rightarrow> url_search_params \<Rightarrow> url_search_params" where
  "append_filters [] queryParams = queryParams"
| "append_filters ((key, v) # rest) queryParams =
     append_filters rest
       (if v \<noteq> JNull \<and> v \<noteq> JUndefined \<and> v \<noteq> JStr []
        then append_param queryParams key (JStr (encodeURIComponent (to_string v)))
        else queryParams)"

text \<open>The block under \<open>if (pagination)\<close>.\<close>

definition append_pagination :: "pagination_params option \<Rightarrow> url_search_params \<Rightarrow> url_search_params" where
  "append_pagination pg queryParams =
     (case pg of
        None \<Rightarrow> queryParams
      | Some p \<Rightarrow>
          append_param (append_param queryParams ''page'' (js_or (page p) (JNum 1)))
            ''page_size'' (js_or (perPage p) (JNum 10)))"

text \<open>The block under \<open>if (sort && sort.field)\<close>.\<close>

definition append_sort :: "sort_params option \<Rightarrow> url_search_params \<Rightarrow> url_search_params" where
  "append_sort srt queryParams =
     (case srt of
        None \<Rightarrow> queryParams
      | Some s \<Rightarrow>
          (case field s of
             None \<Rightarrow> queryParams
           | Some f \<Rightarrow>
               if f = [] then queryParams
               else
                 (let sortOrder =
                        toLowerCase (case order s of
                                       None \<Rightarrow> ''ASC''
                                     | Some ord \<Rightarrow> if ord = [] then ''ASC'' else ord)
                  in append_param (append_param queryParams ''sort_field'' (JStr f))
                       ''sort_order'' (JStr sortOrder))))"

text \<open>The \<open>queryParams\<close> object as \<open>buildQueryParams\<close> leaves it before \<open>toString\<close>.\<close>

definition build_params :: "list_params \<Rightarrow> url_search_params" where
  "build_params params =
     (let q1 = append_pagination (pagination params) [];
          q2 = append_sort (sort_p params) q1
      in case filter_p params of
           None \<Rightarrow> q2
         | Some fl \<Rightarrow> append_filters fl q2)"

definition buildQueryParams :: "list_params \<Rightarrow> string" where
  "buildQueryParams params = URLSearchParams_toString (build_params params)"

section \<open>The network\<close>

text \<open>
  A response as the program reads it: status, status text, the headers (names in lower
  case, as \<open>headers.get\<close> compares them), the body as \<open>response.text()\<close> gives it, and
  what \<open>JSON.parse\<close> makes of that body (\<open>Inl\<close>: it throws). \<open>response.ok\<close> is a status
  from 200 to 299.
\<close>

record response =
  resp_status :: int
  resp_statusText :: string
  resp_headers :: "(string \<times> string) list"
  resp_text :: string
  resp_json :: "js_error + jsval"

definition ok :: "response \<Rightarrow> bool" where
  "ok r = (200 \<le> resp_status r \<and> resp_status r \<le> 299)"

definition headers_get :: "response \<Rightarrow> string \<Rightarrow> string option" where
  "headers_get r name = map_of (resp_headers r) name"

datatype blob = Blob string

text \<open>
  A call of \<open>fetch\<close> either rejects (no response could be read) or yields a response.
  The request body is held as the value that \<open>JSON.stringify\<close> serialises.
\<close>

datatype fetch_outcome =
    FetchRejected js_error
  | Responded response

record request =
  req_url :: string
  req_method :: string
  req_headers :: "(string \<times> string) list"
  req_body :: "jsval option"

text \<open>
  What surrounds the program: the environment variable \<open>REACT_APP_API_URL\<close> and the
  answer of the network to each request.
\<close>

record world =
  env_API_URL :: "string option"
  fetch :: "request \<Rightarrow> fetch_outcome"

definition API_URL :: "world \<Rightarrow> string" where
  "API_URL w =
     (case env_API_URL w of
        None \<Rightarrow> ''http://localhost:8000''
      | Some u \<Rightarrow> if u \<noteq> [] then u else ''http://localhost:8000'')"

definition bearer :: "storage \<Rightarrow> string" where
  "bearer ls =
     (case ls ''token'' of
        None \<Rightarrow> []
      | Some token \<Rightarrow> if token \<noteq> [] then ''Bearer '' @ token else [])"

definition getAuthHeaders :: "storage \<Rightarrow> (string \<times> string) list" where
  "getAuthHeaders ls = [(''Content-Type'', ''application/json''), (''Authorization'', bearer ls)]"

text \<open>Object spread \<open>{...a, ...b}\<close>: the entries of \<open>b\<close> override and extend those of \<open>a\<close>.\<close>

definition spread :: "(string \<times> 'v) list \<Rightarrow> (string \<times> 'v) list \<Rightarrow> (string \<times> 'v) list" where
  "spread a b =
     map (\<lambda>(k, v). (k, case map_of b k of Some v' \<Rightarrow> v' | None \<Rightarrow> v)) a
     @ filter (\<lambda>(k, v). map_of a k = None) b"

section \<open>fetchJson\<close>

record fetch_options =
  opt_method :: "string option"
  opt_headers :: "(string \<times> string) list"
  opt_body :: "jsval option"

record fetch_result =
  res_status :: int
  res_headers :: "(string \<times> string) list"
  res_json :: jsval

text \<open>The \<open>json\<close> variable: the parsed body, \<open>{}\<close> for an empty body, or the fallback object.\<close>

definition parse_body :: "response \<Rightarrow> jsval" where
  "parse_body r =
     (let text = resp_text r
      in if text \<noteq> [] then
           (case resp_json r of
              Inr v \<Rightarrow> v
            | Inl e \<Rightarrow>
                JObj [(''message'', JStr (if text \<noteq> [] then text else ''Invalid response format'')),
                      (''detail'', JStr (if text \<noteq> [] then text else ''Invalid response format''))])
         else JObj [])"

fun is_array :: "jsval \<Rightarrow> bool" where
  "is_array (JArr xs) = True"
| "is_array _ = False"

text \<open>
  The block under \<open>if (!response.ok)\<close>: the error object and the \<open>switch\<close> on the
  status. Reading \<open>json.detail\<close> throws when \<open>json\<close> is \<open>null\<close>.
\<close>

definition error_of_response :: "string \<Rightarrow> response \<Rightarrow> jsval \<Rightarrow> js_error + api_error" where
  "error_of_response url r json =
     (case get_prop json ''detail'' of
        Inl e \<Rightarrow> Inl e
      | Inr detail \<Rightarrow>
          (let status = resp_status r;
               detail_or_message = js_or detail (prop_of json ''message'');
               error = \<lparr>err_status = status,
                        err_statusText = Some (resp_statusText r),
                        err_message = js_or detail_or_message (JStr (''HTTP Error '' @ number_to_string status)),
                        err_body = json,
                        err_url = url,
                        err_validationErrors = None\<rparr>
           in Inr
             (if status = 400 then
                error\<lparr>err_message := js_or detail_or_message (JStr ''Bad request. Please check your input.'')\<rparr>
              else if status = 401 then
                error\<lparr>err_message := JStr ''Authentication required. Please log in again.''\<rparr>
              else if status = 403 then
                error\<lparr>err_message := js_or detail_or_message (JStr ''You do not have permission to perform this action.'')\<rparr>
              else if status = 404 then
                error\<lparr>err_message := js_or detail_or_message (JStr ''Resource not found.'')\<rparr>
              else if status = 422 then
                (let error422 = error\<lparr>err_message := js_or detail_or_message (JStr ''Validation error. Please check your input.'')\<rparr>
                 in if truthy detail \<and> is_array detail
                    then error422\<lparr>err_validationErrors := Some detail\<rparr>
                    else error422)
              else if status = 500 then
                error\<lparr>err_message := js_or detail_or_message (JStr ''Internal server error. Please try again later.'')\<rparr>
              else if status = 503 then
                error\<lparr>err_message := JStr ''Service unavailable. Please try again later.''\<rparr>
              else
                error\<lparr>err_message := js_or detail_or_message
                                          (JStr (''An error occurred ('' @ number_to_string status @ '')''))\<rparr>)))"

text \<open>The \<open>then\<close> callback: \<open>Inl\<close> is what it throws or rejects with.\<close>

definition fetchJson_then :: "string \<Rightarrow> response \<Rightarrow> js_error + fetch_result" where
  "fetchJson_then url r =
     (let json = parse_body r
      in if \<not> ok r then
           (case error_of_response url r json of
              Inl e \<Rightarrow> Inl e
            | Inr error \<Rightarrow> Inl (Structured error))
         else Inr \<lparr>res_status = resp_status r, res_headers = resp_headers r, res_json = json\<rparr>)"

text \<open>The \<open>catch\<close> callback: the reason the promise of \<open>fetchJson\<close> rejects with.\<close>

definition fetchJson_catch :: "string \<Rightarrow> js_error \<Rightarrow> js_error" where
  "fetchJson_catch url error =
     (let message = to_string (error_message error)
      in if error_name error = JStr ''TypeError'' \<and> str_includes message ''fetch'' then
           Structured \<lparr>err_status = 0, err_statusText = None,
                       err_message = JStr ''Network error. Please check your connection and try again.'',
                       err_body = JObj [(''error'', error_message error)],
                       err_url = url, err_validationErrors = None\<rparr>
         else if error_status error \<noteq> JUndefined then error
         else
           Structured \<lparr>err_status = 0, err_statusText = None,
                       err_message = js_or (error_message error) (JStr ''An unexpected error occurred''),
                       err_body = JObj [(''error'', error_message error)],
                       err_url = url, err_validationErrors = None\<rparr>)"

text \<open>The request that \<open>fetchJson\<close> hands to \<open>fetch\<close>; a call without a method is a GET.\<close>

definition fetchJson_request :: "storage \<Rightarrow> string \<Rightarrow> fetch_options \<Rightarrow> request" where
  "fetchJson_request ls url options =
     \<lparr>req_url = url,
      req_method = (case opt_method options of None \<Rightarrow> ''GET'' | Some m \<Rightarrow> m),
      req_headers = spread (getAuthHeaders ls) (opt_headers options),
      req_body = opt_body options\<rparr>"

definition fetchJson :: "world \<Rightarrow> storage \<Rightarrow> string \<Rightarrow> fetch_options \<Rightarrow> js_error + fetch_result" where
  "fetchJson w ls url options =
     (case fetch w (fetchJson_request ls url options) of
        FetchRejected e \<Rightarrow> Inl (fetchJson_catch url e)
      | Responded r \<Rightarrow>
          (case fetchJson_then url r of
             Inl e \<Rightarrow> Inl (fetchJson_catch url e)
           | Inr v \<Rightarrow> Inr v))"

section \<open>dataProvider\<close>



definition no_options :: fetch_options where
  "no_options = \<lparr>opt_method = None, opt_headers = [], opt_body = None\<rparr>"

definition new_Error :: "string \<Rightarrow> js_error" where
  "new_Error m = ErrorObj ''Error'' m"













section \<open>authAPI.login and authProvider.login\<close>

definition login_request :: "world \<Rightarrow> string \<Rightarrow> string \<Rightarrow> request" where
  "login_request w username password =
     \<lparr>req_url = API_URL w @ ''/auth/login'',
      req_method = ''POST'',
      req_headers = [(''Content-Type'', ''application/json'')],
      req_body = Some (JObj [(''username'', JStr username), (''password'', JStr password)])\<rparr>"

definition authAPI_login :: "world \<Rightarrow> string \<Rightarrow> string \<Rightarrow> js_error + jsval" where
  "authAPI_login w username password =
     (case fetch w (login_request w username password) of
        FetchRejected e \<Rightarrow> Inl e
      | Responded r \<Rightarrow>
          if \<not> ok r then Inl (new_Error ''Login failed'')
          else resp_json r)"

text \<open>
  Destructuring \<open>const {token, account_role} = data\<close> throws a \<open>TypeError\<close> when
  \<open>data\<close> is \<open>null\<close> or \<open>undefined\<close>; the message is the engine's (V8's here).
\<close>

definition destructure_error :: "jsval \<Rightarrow> string \<Rightarrow> string \<Rightarrow> js_error" where
  "destructure_error v k var =
     ErrorObj ''TypeError''
       (''Cannot destructure property '' @ [CHR 0x27] @ k @ [CHR 0x27] @ '' of ''
        @ [CHR 0x27] @ var @ [CHR 0x27] @ '' as it is '' @ to_string v @ ''.'')"

definition login ::
    "world \<Rightarrow> storage \<Rightarrow> string \<Rightarrow> string \<Rightarrow> (js_error option + unit) \<times> storage" where
  "login w ls username password =
     (case authAPI_login w username password of
        Inl error \<Rightarrow> (Inl (Some error), ls)
      | Inr login_data \<Rightarrow>
          if login_data = JNull \<or> login_data = JUndefined then
            (Inl (Some (destructure_error login_data ''token'' ''data'')), ls)
          else
            (let token = prop_of login_data ''token'';
                 account_role = prop_of login_data ''account_role''
             in (Inr (), setStoredAuth token account_role ls)))"

section \<open>usersAPI.exportCSV\<close>

text \<open>\<open>v?.k\<close>: \<open>undefined\<close> when \<open>v\<close> is \<open>null\<close> or \<open>undefined\<close>.\<close>

definition opt_prop :: "jsval \<Rightarrow> string \<Rightarrow> jsval" where
  "opt_prop v k = (if v = JNull \<or> v = JUndefined then JUndefined else prop_of v k)"

text \<open>The helper \<open>getStringValue\<close>; its \<open>null\<close> is \<open>None\<close>.\<close>

definition getStringValue :: "jsval \<Rightarrow> string option" where
  "getStringValue v =
     (if v = JNull \<or> v = JUndefined then None
      else (let str = trim (to_string v) in if str \<noteq> [] then Some str else None))"

text \<open>\<open>if (x) params.append(name, x)\<close> for a string or \<open>null\<close> \<open>x\<close>.\<close>

definition append_if :: "url_search_params \<Rightarrow> string \<Rightarrow> string option \<Rightarrow> url_search_params" where
  "append_if q name x =
     (case x of
        None \<Rightarrow> q
      | Some str \<Rightarrow> if str \<noteq> [] then append_param q name (JStr str) else q)"

definition export_params :: "jsval \<Rightarrow> jsval \<Rightarrow> url_search_params" where
  "export_params filters sort_arg =
     (let q1 = append_if [] ''role'' (getStringValue (opt_prop filters ''role''));
          q2 = append_if q1 ''status'' (getStringValue (opt_prop filters ''status''));
          q3 = append_if q2 ''account_role'' (getStringValue (opt_prop filters ''account_role''));
          q4 = append_if q3 ''search'' (getStringValue (opt_prop filters ''search''))
      in case getStringValue (opt_prop sort_arg ''field'') of
           None \<Rightarrow> q4
         | Some sortField \<Rightarrow>
             if sortField = [] then q4
             else
               (let q5 = append_param q4 ''sort_field'' (JStr sortField);
                    sortOrderRaw = js_or (opt_prop sort_arg ''order'') (JStr ''DESC'');
                    sortOrder = toLowerCase (to_string sortOrderRaw)
                in if sortOrder = ''asc'' \<or> sortOrder = ''desc''
                   then append_param q5 ''sort_order'' (JStr sortOrder)
                   else append_param q5 ''sort_order'' (JStr ''desc'')))"

text \<open>The message of the error thrown for a response that is not ok.\<close>

definition export_error_message :: "response \<Rightarrow> string" where
  "export_error_message r =
     (let http = ''HTTP '' @ number_to_string (resp_status r) @ '': '' @ resp_statusText r;
          is_json = (case headers_get r ''content-type'' of
                       None \<Rightarrow> False
                     | Some contentType \<Rightarrow>
                         contentType \<noteq> [] \<and> str_includes contentType ''application/json'')
      in if is_json then
           (case resp_json r of
              Inl e \<Rightarrow> http
            | Inr error \<Rightarrow>
                (case get_prop error ''detail'' of
                   Inl e \<Rightarrow> http
                 | Inr detail \<Rightarrow>
                     to_string (js_or (js_or detail (prop_of error ''message'')) (JStr http))))
         else if resp_text r \<noteq> [] then resp_text r else http)"

text \<open>
  \<open>exportCSV(filters = {}, sort = {})\<close>: a default applies to an \<open>undefined\<close> argument.
  The blob holds the body of the response.
\<close>

definition export_request :: "world \<Rightarrow> storage \<Rightarrow> jsval \<Rightarrow> jsval \<Rightarrow> request" where
  "export_request w ls filters_arg sort_arg =
     (let filters = (if filters_arg = JUndefined then JObj [] else filters_arg);
          sort_v = (if sort_arg = JUndefined then JObj [] else sort_arg);
          queryString = URLSearchParams_toString (export_params filters sort_v);
          url = API_URL w @ ''/users/export-csv''
                @ (if queryString \<noteq> [] then ''?'' @ queryString else [])
      in \<lparr>req_url = url, req_method = ''GET'',
          req_headers = [(''Authorization'', bearer ls)],
          req_body = None\<rparr>)"

definition exportCSV :: "world \<Rightarrow> storage \<Rightarrow> jsval \<Rightarrow> jsval \<Rightarrow> js_error + blob" where
  "exportCSV w ls filters_arg sort_arg =
     (case fetch w (export_request w ls filters_arg sort_arg) of
        FetchRejected e \<Rightarrow> Inl e
      | Responded r \<Rightarrow>
             if \<not> ok r then Inl (new_Error (export_error_message r))
             else
               (case headers_get r ''content-type'' of
                  None \<Rightarrow> Inr (Blob (resp_text r))
                | Some contentType \<Rightarrow>
                    if contentType \<noteq> [] \<and> \<not> str_includes contentType ''text/csv''
                       \<and> \<not> str_includes contentType ''application/octet-stream''
                    then Inl (new_Error (''Unexpected response type: '' @ contentType
                                         @ ''. Response: '' @ take 200 (resp_text r)))
                    else Inr (Blob (resp_text r))))"

section \<open>Sample worlds\<close>

text \<open>A network that answers every request with the same response, and one that is down.\<close>

definition answering :: "response \<Rightarrow> world" where
  "answering r = \<lparr>env_API_URL = None, fetch = (\<lambda>req. Responded r)\<rparr>"

definition unreachable :: world where
  "unreachable =
     \<lparr>env_API_URL = None, fetch = (\<lambda>req. FetchRejected (ErrorObj ''TypeError'' ''Failed to fetch''))\<rparr>"

definition text_response :: "int \<Rightarrow> string \<Rightarrow> string \<Rightarrow> response" where
  "text_response status contentType body =
     \<lparr>resp_status = status, resp_statusText = [],
      resp_headers = [(''content-type'', contentType)],
      resp_text = body,
      resp_json = Inl (ErrorObj ''SyntaxError'' ''Unexpected token'')\<rparr>"

definition json_response :: "int \<Rightarrow> string \<Rightarrow> jsval \<Rightarrow> response" where
  "json_response status body v =
     \<lparr>resp_status = status, resp_statusText = [],
      resp_headers = [(''content-type'', ''application/json'')],
      resp_text = body,
      resp_json = Inr v\<rparr>"


definition bad_credentials_response :: response where
  "bad_credentials_response =
     json_response 401 ''{\"detail\":\"Bad credentials\"}''
       (JObj [(''detail'', JStr ''Bad credentials'')])"

definition session_response :: response where
  "session_response =
     json_response 200 ''{\"token\":\"t0k3n\",\"account_role\":\"admin\"}''
       (JObj [(''token'', JStr ''t0k3n''), (''account_role'', JStr ''admin'')])"

definition null_response :: "int \<Rightarrow> response" where
  "null_response status = json_response status ''null'' JNull"

definition signed_in :: storage where
  "signed_in = [''token'' \<mapsto> ''t0k3n'', ''account_role'' \<mapsto> ''admin'']"

section \<open>Facts about the query parameters\<close>

text \<open>
  The filter loop appends, in order, one parameter for each entry whose value is not
  \<open>null\<close>, \<open>undefined\<close> or the empty string, and leaves what was appended before.
\<close>

lemma append_filters_eq:
  "append_filters fl q =
     q @ map (\<lambda>(k, v). (k, encodeURIComponent (to_string v)))
           (filter (\<lambda>(k, v). v \<noteq> JNull \<and> v \<noteq> JUndefined \<and> v \<noteq> JStr []) fl)"
  by (induction fl q rule: append_filters.induct) (simp_all add: append_param_def)

lemma append_filters_append: "append_filters fl q = q @ append_filters fl []"
  by (simp add: append_filters_eq)





lemma join_Cons: "xs \<noteq> [] \<Longrightarrow> join sep (x # xs) = x @ sep @ join sep xs"
  by (cases xs) simp_all

lemma join_pair:
  "join sep (xs @ [a, b] @ ys) = join sep (xs @ [a @ sep @ b] @ ys)"
proof (induction xs)
  case Nil
  show ?case by (cases ys) simp_all
next
  case (Cons x xs)
  then show ?case by (simp add: join_Cons)
qed

lemma toLowerCase_ASC: "toLowerCase ''ASC'' = ''asc''"
  by (simp add: toLowerCase_def lower_char_def upper_chars_def lower_chars_def)

section \<open>Facts about fetchJson and the dataProvider\<close>

text \<open>
  A 401 response whose body is not the JSON value \<open>null\<close> is rejected with status 401 and
  the fixed message.
\<close>

lemma fetchJson_401_message:
  assumes "fetch w (fetchJson_request ls url options) = Responded r"
      and "resp_status r = 401"
      and "parse_body r \<noteq> JNull" and "parse_body r \<noteq> JUndefined"
  shows "\<exists>e. fetchJson w ls url options = Inl (Structured e)
             \<and> err_status e = 401
             \<and> err_message e = JStr ''Authentication required. Please log in again.''"
  using assms
  by (simp add: fetchJson_def fetchJson_then_def ok_def error_of_response_def get_prop_def
        fetchJson_catch_def Let_def)










section \<open>The access control policy\<close>

text \<open>
  Claim C1. For every stored role, \<open>getPermissions\<close> resolves, and with exactly the
  capability set of the policy table: all five capabilities for \<open>admin\<close>, only \<open>canEdit\<close>
  for \<open>corporate_admin\<close>, and none for any other role or when no role is stored.
\<close>

theorem getPermissions_policy:
  "(ls ''account_role'' = Some ''admin'' \<longrightarrow>
      getPermissions ls = Inr \<lparr>canCreate = True, canEdit = True, canDelete = True,
                                 canExport = True, canImport = True\<rparr>)
   \<and> (ls ''account_role'' = Some ''corporate_admin'' \<longrightarrow>
      getPermissions ls = Inr \<lparr>canCreate = False, canEdit = True, canDelete = False,
                                 canExport = False, canImport = False\<rparr>)
   \<and> (ls ''account_role'' \<noteq> Some ''admin'' \<and> ls ''account_role'' \<noteq> Some ''corporate_admin'' \<longrightarrow>
      getPermissions ls = Inr \<lparr>canCreate = False, canEdit = False, canDelete = False,
                                 canExport = False, canImport = False\<rparr>)"
  by (simp add: getPermissions_def getStoredAuth_def)

theorem getPermissions_policy_witness:
  "getPermissions [''account_role'' \<mapsto> ''admin''] =
     Inr \<lparr>canCreate = True, canEdit = True, canDelete = True, canExport = True, canImport = True\<rparr>
   \<and> getPermissions [''account_role'' \<mapsto> ''corporate_admin''] =
     Inr \<lparr>canCreate = False, canEdit = True, canDelete = False, canExport = False, canImport = False\<rparr>
   \<and> getPermissions [''account_role'' \<mapsto> ''end_user''] =
     Inr \<lparr>canCreate = False, canEdit = False, canDelete = False, canExport = False, canImport = False\<rparr>
   \<and> getPermissions Map.empty =
     Inr \<lparr>canCreate = False, canEdit = False, canDelete = False, canExport = False, canImport = False\<rparr>"
  using getPermissions_policy [of "[''account_role'' \<mapsto> ''admin'']"]
        getPermissions_policy [of "[''account_role'' \<mapsto> ''corporate_admin'']"]
        getPermissions_policy [of "[''account_role'' \<mapsto> ''end_user'']"]
        getPermissions_policy [of Map.empty]
  by simp

section \<open>checkError\<close>

text \<open>
  Claim C4. For an error whose status is 401 or 403, \<open>checkError\<close> removes the
  \<open>token\<close> and \<open>account_role\<close> entries of the session and rejects; for every other
  status (and for an error that has none) it resolves and leaves the session as it was.
\<close>

theorem checkError_session:
  "(error_status e = JNum 401 \<or> error_status e = JNum 403 \<longrightarrow>
      checkError e ls = (Inl None, ls(''token'' := None, ''account_role'' := None)))
   \<and> (error_status e \<noteq> JNum 401 \<and> error_status e \<noteq> JNum 403 \<longrightarrow>
      checkError e ls = (Inr (), ls))"
  by (simp add: checkError_def clearStoredAuth_def Let_def)

theorem checkError_session_witness:
  "checkError (Structured \<lparr>err_status = 403, err_statusText = None, err_message = JStr ''Forbidden'',
                 err_body = JObj [], err_url = ''/users'', err_validationErrors = None\<rparr>) signed_in
     = (Inl None, Map.empty)
   \<and> checkError (Structured \<lparr>err_status = 401, err_statusText = None, err_message = JStr ''Unauthorized'',
                 err_body = JObj [], err_url = ''/users'', err_validationErrors = None\<rparr>) signed_in
     = (Inl None, Map.empty)
   \<and> checkError (Structured \<lparr>err_status = 500, err_statusText = None, err_message = JStr ''Oops'',
                 err_body = JObj [], err_url = ''/users'', err_validationErrors = None\<rparr>) signed_in
     = (Inr (), signed_in)"
  using checkError_session [of "Structured \<lparr>err_status = 403, err_statusText = None, err_message = JStr ''Forbidden'',
                 err_body = JObj [], err_url = ''/users'', err_validationErrors = None\<rparr>" signed_in]
        checkError_session [of "Structured \<lparr>err_status = 401, err_statusText = None, err_message = JStr ''Unauthorized'',
                 err_body = JObj [], err_url = ''/users'', err_validationErrors = None\<rparr>" signed_in]
        checkError_session [of "Structured \<lparr>err_status = 500, err_statusText = None, err_message = JStr ''Oops'',
                 err_body = JObj [], err_url = ''/users'', err_validationErrors = None\<rparr>" signed_in]
  by (simp add: signed_in_def)

section \<open>Sorting in list queries\<close>

text \<open>
  Claim C5, as amended. For a list call whose sort has a non-empty field, the parameters
  are those of the pagination, then \<open>sort_field\<close> with the field and \<open>sort_order\<close>
  with the order in lower case (\<open>ASC\<close> when the order is absent or empty), then those of
  the filter; so the query string holds \<open>sort_field=...&sort_order=...\<close> with both
  values form-encoded. The order is not checked against \<open>asc\<close> and \<open>desc\<close>: any other
  value goes through in lower case.
\<close>

theorem buildQueryParams_sort:
  assumes "sort_p params = Some s" and "field s = Some f" and "f \<noteq> []"
  shows "build_params params
           = append_pagination (pagination params) []
             @ [(''sort_field'', f),
                (''sort_order'', toLowerCase (case order s of
                                                None \<Rightarrow> ''ASC''
                                              | Some ord \<Rightarrow> if ord = [] then ''ASC'' else ord))]
             @ (case filter_p params of None \<Rightarrow> [] | Some fl \<Rightarrow> append_filters fl [])
         \<and> (\<exists>before after.
               buildQueryParams params
                 = join ''&''
                     (before
                      @ [''sort_field='' @ form_urlencode f
                         @ ''&sort_order=''
                         @ form_urlencode (toLowerCase (case order s of
                                                None \<Rightarrow> ''ASC''
                                              | Some ord \<Rightarrow> if ord = [] then ''ASC'' else ord))]
                      @ after))"
proof -
  let ?o = "toLowerCase (case order s of None \<Rightarrow> ''ASC'' | Some ord \<Rightarrow> if ord = [] then ''ASC'' else ord)"
  let ?pre = "append_pagination (pagination params) []"
  let ?post = "case filter_p params of None \<Rightarrow> [] | Some fl \<Rightarrow> append_filters fl []"
  let ?ser = "\<lambda>(name, v). form_urlencode name @ ''='' @ form_urlencode v"
  have srt: "append_sort (sort_p params) ?pre = ?pre @ [(''sort_field'', f), (''sort_order'', ?o)]"
    using assms by (simp add: append_sort_def append_param_def Let_def)
  have bp: "build_params params = ?pre @ [(''sort_field'', f), (''sort_order'', ?o)] @ ?post"
  proof (cases "filter_p params")
    case None
    then show ?thesis by (simp add: build_params_def srt)
  next
    case (Some fl)
    then show ?thesis
      using append_filters_append [of fl "?pre @ [(''sort_field'', f), (''sort_order'', ?o)]"]
      by (simp add: build_params_def srt)
  qed
  have sf: "form_urlencode ''sort_field'' = ''sort_field''" "form_urlencode ''sort_order'' = ''sort_order''"
    by (simp_all add: form_urlencode_def alphanumeric_def)
  have "buildQueryParams params
          = join ''&'' (map ?ser ?pre
                        @ [''sort_field='' @ form_urlencode f, ''sort_order='' @ form_urlencode ?o]
                        @ map ?ser ?post)"
    by (simp add: buildQueryParams_def URLSearchParams_toString_def bp sf)
  also have "\<dots> = join ''&'' (map ?ser ?pre
                        @ [(''sort_field='' @ form_urlencode f) @ ''&'' @ (''sort_order='' @ form_urlencode ?o)]
                        @ map ?ser ?post)"
    by (rule join_pair)
  finally have "buildQueryParams params
          = join ''&'' (map ?ser ?pre
                        @ [''sort_field='' @ form_urlencode f @ ''&sort_order='' @ form_urlencode ?o]
                        @ map ?ser ?post)"
    by simp
  then have "\<exists>before after. buildQueryParams params
          = join ''&'' (before
                        @ [''sort_field='' @ form_urlencode f @ ''&sort_order='' @ form_urlencode ?o]
                        @ after)"
    by blast
  with bp show ?thesis by blast
qed

theorem buildQueryParams_sort_witness:
  "build_params \<lparr>pagination = None,
                  sort_p = Some \<lparr>field = Some ''name'', order = Some ''ASC''\<rparr>,
                  filter_p = None\<rparr>
     = [(''sort_field'', ''name''), (''sort_order'', ''asc'')]
   \<and> buildQueryParams \<lparr>pagination = None,
                        sort_p = Some \<lparr>field = Some ''name'', order = Some ''ASC''\<rparr>,
                        filter_p = None\<rparr>
     = ''sort_field=name&sort_order=asc''
   \<and> build_params \<lparr>pagination = None,
                    sort_p = Some \<lparr>field = Some ''name'', order = None\<rparr>,
                    filter_p = None\<rparr>
     = [(''sort_field'', ''name''), (''sort_order'', ''asc'')]"
proof -
  let ?s = "\<lparr>field = Some ''name'', order = Some ''ASC''\<rparr>"
  let ?p = "\<lparr>pagination = None, sort_p = Some ?s, filter_p = None\<rparr>"
  let ?s' = "\<lparr>field = Some ''name'', order = None\<rparr>"
  let ?p' = "\<lparr>pagination = None, sort_p = Some ?s', filter_p = None\<rparr>"
  have 1: "sort_p ?p = Some ?s" "sort_p ?p' = Some ?s'" by simp_all
  have 2: "field ?s = Some ''name''" "field ?s' = Some ''name''" by simp_all
  have 3: "''name'' \<noteq> []" by simp
  from buildQueryParams_sort [OF 1(1) 2(1) 3]
  have a: "build_params ?p = [(''sort_field'', ''name''), (''sort_order'', ''asc'')]"
    by (simp add: append_pagination_def toLowerCase_ASC)
  from buildQueryParams_sort [OF 1(2) 2(2) 3]
  have b: "build_params ?p' = [(''sort_field'', ''name''), (''sort_order'', ''asc'')]"
    by (simp add: append_pagination_def toLowerCase_ASC)
  have c: "buildQueryParams ?p = ''sort_field=name&sort_order=asc''"
    by (simp add: buildQueryParams_def a URLSearchParams_toString_def form_urlencode_def
          alphanumeric_def)
  from a b c show ?thesis by blast
qed

text \<open>
  Claim C5 as stated fails for an order that is neither \<open>ASC\<close> nor \<open>DESC\<close>: it is not
  replaced by \<open>desc\<close>.
\<close>

theorem buildQueryParams_sort_counterexample:
  "buildQueryParams \<lparr>pagination = None,
                      sort_p = Some \<lparr>field = Some ''name'', order = Some ''sideways''\<rparr>,
                      filter_p = None\<rparr>
     = ''sort_field=name&sort_order=sideways''
   \<and> buildQueryParams \<lparr>pagination = None,
                        sort_p = Some \<lparr>field = Some ''name'', order = Some ''sideways''\<rparr>,
                        filter_p = None\<rparr>
     \<noteq> ''sort_field=name&sort_order=desc''"
  by (simp add: buildQueryParams_def build_params_def append_pagination_def append_sort_def
        append_param_def toLowerCase_def lower_char_def upper_chars_def lower_chars_def
        URLSearchParams_toString_def form_urlencode_def alphanumeric_def)

section \<open>Empty filters\<close>




section \<open>Content type of an export\<close>

text \<open>
  Claim C8, as amended. For a successful export response with a content type that is
  present and not empty: if it includes neither \<open>text/csv\<close> nor
  \<open>application/octet-stream\<close>, \<open>exportCSV\<close> returns no blob and fails with a message
  that holds the content type and the first 200 characters of the body; if it includes
  one of the two, \<open>exportCSV\<close> resolves to the blob of the body.
\<close>

theorem exportCSV_unexpected_content_type:
  assumes "fetch w (export_request w ls filters sort_arg) = Responded r"
      and "ok r"
      and "headers_get r ''content-type'' = Some contentType"
  shows "(contentType \<noteq> [] \<and> \<not> str_includes contentType ''text/csv''
            \<and> \<not> str_includes contentType ''application/octet-stream'' \<longrightarrow>
          exportCSV w ls filters sort_arg =
            Inl (ErrorObj ''Error'' (''Unexpected response type: '' @ contentType
                                     @ ''. Response: '' @ take 200 (resp_text r))))
       \<and> (str_includes contentType ''text/csv''
            \<or> str_includes contentType ''application/octet-stream'' \<longrightarrow>
          exportCSV w ls filters sort_arg = Inr (Blob (resp_text r)))"
  using assms by (auto simp add: exportCSV_def new_Error_def)

theorem exportCSV_unexpected_content_type_witness:
  "exportCSV (answering (text_response 200 ''text/plain'' ''oops'')) signed_in JUndefined JUndefined
     = Inl (ErrorObj ''Error'' ''Unexpected response type: text/plain. Response: oops'')
   \<and> str_includes ''Unexpected response type: text/plain. Response: oops'' ''oops''
   \<and> exportCSV (answering (text_response 200 ''text/csv; charset=utf-8'' ''id,name''))
         signed_in JUndefined JUndefined
     = Inr (Blob ''id,name'')"
proof -
  let ?p = "text_response 200 ''text/plain'' ''oops''"
  let ?c = "text_response 200 ''text/csv; charset=utf-8'' ''id,name''"
  have p1: "fetch (answering ?p) (export_request (answering ?p) signed_in JUndefined JUndefined)
              = Responded ?p"
    by (simp add: answering_def)
  have p2: "ok ?p" by (simp add: ok_def text_response_def)
  have p3: "headers_get ?p ''content-type'' = Some ''text/plain''"
    by (simp add: headers_get_def text_response_def)
  have c1: "fetch (answering ?c) (export_request (answering ?c) signed_in JUndefined JUndefined)
              = Responded ?c"
    by (simp add: answering_def)
  have c2: "ok ?c" by (simp add: ok_def text_response_def)
  have c3: "headers_get ?c ''content-type'' = Some ''text/csv; charset=utf-8''"
    by (simp add: headers_get_def text_response_def)
  have p4: "\<not> str_includes ''text/plain'' ''text/csv''" by simp
  have p5: "\<not> str_includes ''text/plain'' ''application/octet-stream''" by simp
  have c4: "str_includes ''text/csv; charset=utf-8'' ''text/csv''" by simp
  have t: "resp_text ?p = ''oops''" "resp_text ?c = ''id,name''"
    by (simp_all add: text_response_def)
  have i: "str_includes ''Unexpected response type: text/plain. Response: oops'' ''oops''"
    by simp
  from exportCSV_unexpected_content_type [OF p1 p2 p3] p4 p5 t
  have a: "exportCSV (answering ?p) signed_in JUndefined JUndefined
     = Inl (ErrorObj ''Error'' ''Unexpected response type: text/plain. Response: oops'')"
    by simp
  from exportCSV_unexpected_content_type [OF c1 c2 c3] c4 t
  have b: "exportCSV (answering ?c) signed_in JUndefined JUndefined = Inr (Blob ''id,name'')"
    by simp
  from a b i show ?thesis by blast
qed

text \<open>
  Claim C8 as stated fails for a content-type header that is present and empty: it is
  neither of the two types, and the body comes back as a blob.
\<close>

theorem exportCSV_empty_content_type_counterexample:
  "ok (text_response 200 [] ''oops'')
   \<and> headers_get (text_response 200 [] ''oops'') ''content-type'' = Some []
   \<and> \<not> str_includes [] ''text/csv''
   \<and> \<not> str_includes [] ''application/octet-stream''
   \<and> exportCSV (answering (text_response 200 [] ''oops'')) signed_in JUndefined JUndefined
       = Inr (Blob ''oops'')"
  by (simp add: ok_def text_response_def headers_get_def exportCSV_def answering_def)

text \<open>
  Claim C10. A successful export response without a content-type header is not
  validated: whatever its body, \<open>exportCSV\<close> resolves to the blob of it.
\<close>

theorem exportCSV_no_content_type:
  assumes "fetch w (export_request w ls filters sort_arg) = Responded r"
      and "ok r"
      and "headers_get r ''content-type'' = None"
  shows "exportCSV w ls filters sort_arg = Inr (Blob (resp_text r))"
  using assms by (simp add: exportCSV_def)

theorem exportCSV_no_content_type_witness:
  "exportCSV (answering \<lparr>resp_status = 200, resp_statusText = ''OK'', resp_headers = [],
                          resp_text = ''Internal error page'',
                          resp_json = Inl (ErrorObj ''SyntaxError'' ''Unexpected token'')\<rparr>)
      signed_in JUndefined JUndefined
   = Inr (Blob ''Internal error page'')"
proof -
  let ?r = "\<lparr>resp_status = 200, resp_statusText = ''OK'', resp_headers = [],
             resp_text = ''Internal error page'',
             resp_json = Inl (ErrorObj ''SyntaxError'' ''Unexpected token'')\<rparr>"
  have 1: "fetch (answering ?r) (export_request (answering ?r) signed_in JUndefined JUndefined)
             = Responded ?r"
    by (simp add: answering_def)
  have 2: "ok ?r" by (simp add: ok_def)
  have 3: "headers_get ?r ''content-type'' = None" by (simp add: headers_get_def)
  from exportCSV_no_content_type [OF 1 2 3] show ?thesis by simp
qed

section \<open>Login\<close>

text \<open>
  Claim C9. When \<open>authAPI.login\<close> rejects, \<open>login\<close> rejects with that very error and
  leaves the session as it was; when it returns an object with a token and an account
  role, \<open>login\<close> stores the two and resolves.
\<close>

theorem login_outcomes:
  "(authAPI_login w username password = Inl e \<longrightarrow>
      login w ls username password = (Inl (Some e), ls))
   \<and> (authAPI_login w username password = Inr (JObj kvs)
        \<and> map_of kvs ''token'' = Some (JStr token)
        \<and> map_of kvs ''account_role'' = Some (JStr role) \<longrightarrow>
      login w ls username password
        = (Inr (), ls(''token'' \<mapsto> token, ''account_role'' \<mapsto> role)))"
  by (simp add: login_def setStoredAuth_def)

theorem login_outcomes_witness:
  "login unreachable Map.empty ''ann'' ''secret''
     = (Inl (Some (ErrorObj ''TypeError'' ''Failed to fetch'')), Map.empty)
   \<and> login (answering bad_credentials_response) Map.empty ''ann'' ''wrong''
     = (Inl (Some (ErrorObj ''Error'' ''Login failed'')), Map.empty)
   \<and> login (answering session_response) Map.empty ''ann'' ''secret''
     = (Inr (), signed_in)"
proof -
  let ?w1 = "answering bad_credentials_response"
  let ?kvs = "[(''token'', JStr ''t0k3n''), (''account_role'', JStr ''admin'')]"
  let ?w2 = "answering session_response"
  have a: "authAPI_login unreachable ''ann'' ''secret''
             = Inl (ErrorObj ''TypeError'' ''Failed to fetch'')"
    by (simp add: authAPI_login_def unreachable_def)
  have b: "authAPI_login ?w1 ''ann'' ''wrong'' = Inl (ErrorObj ''Error'' ''Login failed'')"
    by (simp add: authAPI_login_def answering_def bad_credentials_response_def json_response_def
          ok_def new_Error_def)
  have c: "authAPI_login ?w2 ''ann'' ''secret'' = Inr (JObj ?kvs)"
    by (simp add: authAPI_login_def answering_def session_response_def json_response_def ok_def)
  have d: "map_of ?kvs ''token'' = Some (JStr ''t0k3n'')"
          "map_of ?kvs ''account_role'' = Some (JStr ''admin'')"
    by simp_all
  from login_outcomes [of unreachable "''ann''" "''secret''" _ Map.empty] a
  have 1: "login unreachable Map.empty ''ann'' ''secret''
     = (Inl (Some (ErrorObj ''TypeError'' ''Failed to fetch'')), Map.empty)"
    by blast
  from login_outcomes [of ?w1 "''ann''" "''wrong''" _ Map.empty] b
  have 2: "login ?w1 Map.empty ''ann'' ''wrong''
     = (Inl (Some (ErrorObj ''Error'' ''Login failed'')), Map.empty)"
    by blast
  from login_outcomes [of ?w2 "''ann''" "''secret''" _ Map.empty ?kvs "''t0k3n''" "''admin''"] c d
  have 3: "login ?w2 Map.empty ''ann'' ''secret'' = (Inr (), signed_in)"
    by (simp add: signed_in_def)
  from 1 2 3 show ?thesis by blast
qed

section \<open>Encoding of filter values\<close>

text \<open>
  Claim C6 does not hold of the code: a filter value is encoded by \<open>encodeURIComponent\<close>
  and the result is encoded again by \<open>toString\<close>, so the filter \<open>{q: "a b"}\<close> gives
  \<open>q=a%2520b\<close> where one encoding of the value gives \<open>a%20b\<close>.
\<close>

theorem buildQueryParams_filter_value_encoded_twice:
  "encodeURIComponent ''a b'' = ''a%20b''
   \<and> build_params \<lparr>pagination = None, sort_p = None, filter_p = Some [(''q'', JStr ''a b'')]\<rparr>
       = [(''q'', ''a%20b'')]
   \<and> buildQueryParams \<lparr>pagination = None, sort_p = None, filter_p = Some [(''q'', JStr ''a b'')]\<rparr>
       = ''q=a%2520b''"
  by (simp add: buildQueryParams_def build_params_def append_pagination_def append_sort_def
        append_param_def encodeURIComponent_def uri_unreserved_def utf8_bytes_def percent_byte_def
        URLSearchParams_toString_def form_urlencode_def alphanumeric_def)

section \<open>Errors of the HTTP wrapper\<close>

text \<open>
  Claim C3 does not hold of the code: for a 401 response whose body is the JSON text
  \<open>null\<close>, building the error object throws, and \<open>fetchJson\<close> rejects with status 0
  and the message of that exception instead of the fixed message.
\<close>

theorem fetchJson_401_null_body:
  "fetchJson (answering (null_response 401)) signed_in
       ''http://localhost:8000/users'' no_options
     = Inl (Structured
             \<lparr>err_status = 0, err_statusText = None,
              err_message = error_message (null_property_error JNull ''detail''),
              err_body = JObj [(''error'', error_message (null_property_error JNull ''detail''))],
              err_url = ''http://localhost:8000/users'',
              err_validationErrors = None\<rparr>)
   \<and> error_message (null_property_error JNull ''detail'')
       \<noteq> JStr ''Authentication required. Please log in again.''"
  by (simp add: fetchJson_def answering_def null_response_def json_response_def
        fetchJson_then_def parse_body_def ok_def error_of_response_def get_prop_def
        null_property_error_def fetchJson_catch_def js_or_def)

section \<open>Errors of the dataProvider\<close>




end
